theory Spec2Isabelle
  imports Main
begin

section \<open>Data model\<close>

text \<open>
  An order document as the pipeline reads it (models/Order.js): the fields the change
  stream service and the WebSocket service inspect. \<open>doc_id\<close> is the document's
  \<^verbatim>\<open>_id\<close>, rendered as the string that \<^verbatim>\<open>`order-${order._id}`\<close> interpolates.
  \<open>email\<close> is optional in the schema: \<open>None\<close> is an absent field.
\<close>

record order_doc =
  doc_id :: string
  customer_name :: string
  product_name :: string
  status :: string
  email :: "string option"

text \<open>JavaScript truthiness of a value that is a string or undefined.\<close>

fun truthy :: "string option \<Rightarrow> bool" where
  "truthy None = False"
| "truthy (Some s) = (s \<noteq> [])"

text \<open>\<^verbatim>\<open>a || b\<close> on such values: \<open>a\<close> when it is truthy, otherwise \<open>b\<close> whatever it is.\<close>

definition js_or :: "string option \<Rightarrow> string option \<Rightarrow> string option" where
  "js_or a b = (if truthy a then a else b)"

text \<open>A thrown JavaScript exception, by its message.\<close>

datatype exn = Error string

section \<open>WebSocketService (services/websocketService.js)\<close>

text \<open>
  Where an emit goes: \<^verbatim>\<open>io.emit\<close> reaches every connection, \<^verbatim>\<open>io.to(room).emit\<close> the
  connections joined to a room, \<^verbatim>\<open>socket.emit\<close> one connection.
\<close>

datatype target = Everyone | Room string | Socket string

text \<open>
  The payloads the service emits. Every payload also carries
  \<^verbatim>\<open>timestamp: new Date()\<close>, a wall-clock reading that the model leaves out.
  \<open>OrderPayload\<close> is \<^verbatim>\<open>{type, data}\<close>, \<open>OrderUpdatedPayload\<close> is
  \<^verbatim>\<open>{type, data, previous_data}\<close> with \<open>None\<close> for \<^verbatim>\<open>null\<close>,
  \<open>Delivered\<close> is \<^verbatim>\<open>{orderId, customer_name, product_name}\<close>,
  \<open>ServiceError\<close> is \<^verbatim>\<open>{service, status, message}\<close>,
  \<open>Stats\<close> is \<^verbatim>\<open>{total_orders, status_breakdown}\<close> and
  \<open>SubscriptionAck\<close> is \<^verbatim>\<open>{orderId, subscribed}\<close>.
\<close>

datatype payload =
    OrderPayload string order_doc
  | OrderUpdatedPayload string order_doc "order_doc option"
  | Delivered string string string
  | ServiceError string string string
  | Stats nat "(string \<times> nat) list"
  | SubscriptionAck string bool

record emission =
  target :: target
  event :: string
  payload :: payload

text \<open>
  The service's view of socket.io: \<open>emitted\<close> is every emit so far, oldest first;
  \<open>rooms\<close> gives, for a connection id, the set of rooms the connection has joined
  (socket.io keeps a connection's rooms as a set: \<^verbatim>\<open>join\<close> adds, \<^verbatim>\<open>leave\<close> removes).
\<close>

record WebSocketService =
  emitted :: "emission list"
  rooms :: "string \<Rightarrow> string set"

definition emit :: "target \<Rightarrow> string \<Rightarrow> payload \<Rightarrow> WebSocketService \<Rightarrow> WebSocketService" where
  "emit t ev p ws = ws\<lparr>emitted := emitted ws @ [\<lparr>target = t, event = ev, payload = p\<rparr>]\<rparr>"

definition order_room :: "string \<Rightarrow> string" where
  "order_room orderId = ''order-'' @ orderId"

text \<open>
  \<^verbatim>\<open>{...payload, type: t}\<close>: a copy of an order payload with its \<^verbatim>\<open>type\<close> field set
  to \<open>t\<close>. The service spreads order payloads only.
\<close>

fun with_type :: "string \<Rightarrow> payload \<Rightarrow> payload" where
  "with_type t (OrderPayload t0 d) = OrderPayload t d"
| "with_type t (OrderUpdatedPayload t0 d p) = OrderUpdatedPayload t d p"
| "with_type t p = p"

definition broadcastOrderCreated :: "order_doc \<Rightarrow> WebSocketService \<Rightarrow> WebSocketService" where
  "broadcastOrderCreated order ws =
     (let payload = OrderPayload ''order-created'' order;
          ws1 = emit Everyone ''order-created'' payload ws
      in emit (Room (order_room (doc_id order))) ''order-update''
           (with_type ''order-created'' payload) ws1)"

definition broadcastOrderUpdated ::
  "order_doc \<Rightarrow> order_doc option \<Rightarrow> WebSocketService \<Rightarrow> WebSocketService" where
  "broadcastOrderUpdated order previousData ws =
     (let payload = OrderUpdatedPayload ''order-updated'' order previousData;
          ws1 = emit Everyone ''order-updated'' payload ws
      in emit (Room (order_room (doc_id order))) ''order-update''
           (with_type ''order-updated'' payload) ws1)"

definition broadcastOrderDeleted :: "order_doc \<Rightarrow> WebSocketService \<Rightarrow> WebSocketService" where
  "broadcastOrderDeleted order ws =
     (let payload = OrderPayload ''order-deleted'' order;
          ws1 = emit Everyone ''order-deleted'' payload ws
      in emit (Room (order_room (doc_id order))) ''order-update''
           (with_type ''order-deleted'' payload) ws1)"

text \<open>
  \<^verbatim>\<open>broadcastStats\<close> awaits two queries on the record store inside a try/catch: their
  result is \<open>Inr (total, breakdown)\<close>, or \<open>Inl\<close> when a query rejects, which the catch
  logs without emitting.
\<close>

definition broadcastStats ::
  "exn + nat \<times> (string \<times> nat) list \<Rightarrow> WebSocketService \<Rightarrow> WebSocketService" where
  "broadcastStats queries ws =
     (case queries of
        Inr (totalOrders, statusCounts) \<Rightarrow>
          emit Everyone ''order-stats'' (Stats totalOrders statusCounts) ws
      | Inl error \<Rightarrow> ws)"

definition broadcastCustomMessage :: "string \<Rightarrow> payload \<Rightarrow> WebSocketService \<Rightarrow> WebSocketService" where
  "broadcastCustomMessage ev data ws = emit Everyone ev data ws"

text \<open>
  The handlers of the inbound commands \<^verbatim>\<open>subscribe-order\<close> and \<^verbatim>\<open>unsubscribe-order\<close>
  that \<^verbatim>\<open>setupClientEventHandlers\<close> installs on a connection \<open>sid\<close>. The order id is
  what the client sent; a falsy one is ignored.
\<close>

definition subscribe_order :: "string \<Rightarrow> string option \<Rightarrow> WebSocketService \<Rightarrow> WebSocketService" where
  "subscribe_order sid orderId ws =
     (case orderId of
        Some oid \<Rightarrow>
          if oid \<noteq> [] then
            emit (Socket sid) ''subscription-ack'' (SubscriptionAck oid True)
              (ws\<lparr>rooms := (rooms ws)(sid := insert (order_room oid) (rooms ws sid))\<rparr>)
          else ws
      | None \<Rightarrow> ws)"

definition unsubscribe_order :: "string \<Rightarrow> string option \<Rightarrow> WebSocketService \<Rightarrow> WebSocketService" where
  "unsubscribe_order sid orderId ws =
     (case orderId of
        Some oid \<Rightarrow>
          if oid \<noteq> [] then
            emit (Socket sid) ''subscription-ack'' (SubscriptionAck oid False)
              (ws\<lparr>rooms := (rooms ws)(sid := rooms ws sid - {order_room oid})\<rparr>)
          else ws
      | None \<Rightarrow> ws)"

section \<open>EmailService (services/emailService.js)\<close>

text \<open>The variables of \<^verbatim>\<open>process.env\<close> that sending reads; \<open>None\<close> is an unset variable.\<close>

record process_env =
  EMAIL_TO :: "string option"
  EMAIL_FROM :: "string option"
  EMAIL_USER :: "string option"

text \<open>
  The options handed to \<^verbatim>\<open>transporter.sendMail\<close>. The \<^verbatim>\<open>text\<close> alternative, derived
  from \<open>html\<close> by \<^verbatim>\<open>stripHtmlTags\<close>, is left out: nothing below reads it.
\<close>

record mailOptions =
  mail_from :: "string option"
  mail_to :: "string option"
  subject :: string
  html :: string

text \<open>
  What \<^verbatim>\<open>transporter.sendMail\<close> does with a mail: it resolves with
  \<^verbatim>\<open>{messageId, response}\<close> or rejects with an error \<^verbatim>\<open>{message, code}\<close>.
\<close>

datatype mail_info = MailInfo string string
datatype mail_error = MailError string "string option"

text \<open>
  The object \<^verbatim>\<open>sendEmail\<close> returns: \<^verbatim>\<open>{success: false, message}\<close> when the service is
  not configured, \<^verbatim>\<open>{success: true, messageId, response}\<close> after a send, and
  \<^verbatim>\<open>{success: false, error, code}\<close> when the send was rejected.
\<close>

datatype send_result =
    NotConfigured string
  | Sent string string
  | Failed string "string option"

fun success :: "send_result \<Rightarrow> bool" where
  "success (Sent messageId response) = True"
| "success _ = False"

text \<open>
  \<open>isConfigured\<close> is the flag that \<^verbatim>\<open>verifyConnection\<close> sets once the transporter has
  been verified; \<open>sent\<close> is every \<open>mailOptions\<close> handed to
  \<^verbatim>\<open>transporter.sendMail\<close>, oldest first.
\<close>

record EmailService =
  isConfigured :: bool
  sent :: "mailOptions list"

text \<open>
  \<^verbatim>\<open>sendEmail\<close>. \<open>delivery\<close> is what \<^verbatim>\<open>transporter.sendMail\<close> does with the mail this
  time. An unconfigured service returns before it builds the mail. Otherwise the try block
  hands the mail to the transporter, and the catch turns a rejection into the result
  object with \<^verbatim>\<open>success: false\<close>.
\<close>

definition sendEmail ::
  "process_env \<Rightarrow> mail_error + mail_info \<Rightarrow> string option \<Rightarrow> string \<Rightarrow> string \<Rightarrow>
   EmailService \<Rightarrow> send_result \<times> EmailService" where
  "sendEmail env delivery to subj body es =
     (if \<not> isConfigured es then (NotConfigured ''Email service not configured'', es)
      else
        let recipient = js_or (EMAIL_TO env) to;
            mailOptions = \<lparr>mail_from = js_or (EMAIL_FROM env) (EMAIL_USER env),
                           mail_to = recipient, subject = subj, html = body\<rparr>;
            es1 = es\<lparr>sent := sent es @ [mailOptions]\<rparr>
        in (case delivery of
              Inr (MailInfo messageId response) \<Rightarrow> (Sent messageId response, es1)
            | Inl (MailError msg code) \<Rightarrow> (Failed msg code, es1)))"

definition template :: string where
  "template = ''<!-- Your existing template code -->''"

definition sendOrderCreatedEmail ::
  "process_env \<Rightarrow> mail_error + mail_info \<Rightarrow> order_doc \<Rightarrow> EmailService \<Rightarrow>
   send_result \<times> EmailService" where
  "sendOrderCreatedEmail env delivery order es =
     sendEmail env delivery (email order)
       (''Order Confirmation - '' @ product_name order) template es"

definition sendStatusChangeEmail ::
  "process_env \<Rightarrow> mail_error + mail_info \<Rightarrow> order_doc \<Rightarrow> string \<Rightarrow> string \<Rightarrow> EmailService \<Rightarrow>
   send_result \<times> EmailService" where
  "sendStatusChangeEmail env delivery order oldStatus newStatus es =
     sendEmail env delivery (email order)
       (''Order Update - '' @ product_name order @ '' is now '' @ newStatus) template es"

definition sendOrderCancelledEmail ::
  "process_env \<Rightarrow> mail_error + mail_info \<Rightarrow> order_doc \<Rightarrow> EmailService \<Rightarrow>
   send_result \<times> EmailService" where
  "sendOrderCancelledEmail env delivery order es =
     sendEmail env delivery (email order)
       (''Order Cancelled - '' @ product_name order) template es"

section \<open>ChangeStreamService (services/changeStreamService.js)\<close>

text \<open>
  A change event of the MongoDB feed, as \<^verbatim>\<open>handleChange\<close> destructures it.
  \<open>documentKey\<close> is \<^verbatim>\<open>documentKey._id\<close>; \<open>None\<close> is an event that has no
  \<^verbatim>\<open>documentKey\<close>. \<open>fullDocument\<close> and \<open>fullDocumentBeforeChange\<close> are \<open>None\<close>
  when the feed does not supply them.
\<close>

record change_event =
  operationType :: string
  fullDocument :: "order_doc option"
  fullDocumentBeforeChange :: "order_doc option"
  documentKey :: "string option"

text \<open>The calls the service makes on its \<^verbatim>\<open>emailService\<close>.\<close>

datatype notification =
    OrderCreatedEmail order_doc
  | StatusChangeEmail order_doc string string
  | OrderCancelledEmail order_doc

text \<open>
  The service object and what surrounds it. The first six fields are the object's own
  (\<open>changeStream\<close> holds the handle of the stream it watches, \<open>None\<close> for
  \<^verbatim>\<open>null\<close>). The others are the runtime: \<open>notified\<close> is every call made on
  \<^verbatim>\<open>this.emailService\<close>, oldest first; \<open>timers\<close> is the delay of every pending
  \<^verbatim>\<open>setTimeout\<close> callback of \<^verbatim>\<open>handleError\<close>, in the order they were scheduled;
  \<open>feeds\<close> is the handles of the change streams that are open, and \<open>watched\<close>
  counts the streams that \<^verbatim>\<open>watch\<close> has opened so far (it is the next handle).
\<close>

record ChangeStreamService =
  webSocketService :: WebSocketService
  changeStream :: "nat option"
  isRunning :: bool
  retryCount :: nat
  maxRetries :: nat
  retryDelay :: nat
  notified :: "notification list"
  timers :: "nat list"
  feeds :: "nat list"
  watched :: nat

definition constructor :: "WebSocketService \<Rightarrow> ChangeStreamService" where
  "constructor ws =
     \<lparr>webSocketService = ws, changeStream = None, isRunning = False, retryCount = 0,
      maxRetries = 5, retryDelay = 5000, notified = [], timers = [], feeds = [],
      watched = 0\<rparr>"

subsection \<open>Handling a change event\<close>

text \<open>
  \<^verbatim>\<open>try { await this.emailService.sendX(...) } catch (error) { console.error(...) }\<close>:
  the call is made, and \<open>mail\<close> is what awaiting it yields, the result object or
  (\<open>Inl\<close>) an exception, which the catch logs.
\<close>

definition try_send ::
  "notification \<Rightarrow> exn + send_result \<Rightarrow> ChangeStreamService \<Rightarrow> ChangeStreamService" where
  "try_send n mail w =
     (case mail of
        Inr result \<Rightarrow> w\<lparr>notified := notified w @ [n]\<rparr>
      | Inl error \<Rightarrow> w\<lparr>notified := notified w @ [n]\<rparr>)"

text \<open>
  Reading \<^verbatim>\<open>document._id\<close> of a document that is \<^verbatim>\<open>undefined\<close> throws; the model
  returns the exception as \<open>Inl\<close>.
\<close>

definition undefined_id :: exn where
  "undefined_id = Error ''Cannot read properties of undefined (reading _id)''"

definition handleInsert ::
  "order_doc option \<Rightarrow> exn + send_result \<Rightarrow> ChangeStreamService \<Rightarrow> exn + ChangeStreamService" where
  "handleInsert document mail w =
     (case document of
        None \<Rightarrow> Inl undefined_id
      | Some d \<Rightarrow>
          let w1 = w\<lparr>webSocketService := broadcastOrderCreated d (webSocketService w)\<rparr>
          in if truthy (email d) then Inr (try_send (OrderCreatedEmail d) mail w1)
             else Inr w1)"

definition handleUpdate ::
  "order_doc option \<Rightarrow> order_doc option \<Rightarrow> exn + send_result \<Rightarrow> ChangeStreamService \<Rightarrow>
   ChangeStreamService" where
  "handleUpdate document previousDocument mail w =
     (case document of
        None \<Rightarrow> w
      | Some d \<Rightarrow>
          let statusChanged =
                (case previousDocument of None \<Rightarrow> False | Some p \<Rightarrow> status p \<noteq> status d);
              w1 = w\<lparr>webSocketService :=
                      broadcastOrderUpdated d previousDocument (webSocketService w)\<rparr>;
              w2 = (case previousDocument of
                      Some p \<Rightarrow>
                        if statusChanged \<and> truthy (email d)
                        then try_send (StatusChangeEmail d (status p) (status d)) mail w1
                        else w1
                    | None \<Rightarrow> w1)
          in if statusChanged \<and> status d = ''delivered''
             then w2\<lparr>webSocketService :=
                       broadcastCustomMessage ''order-delivered''
                         (Delivered (doc_id d) (customer_name d) (product_name d))
                         (webSocketService w2)\<rparr>
             else w2)"

definition handleDelete ::
  "string \<Rightarrow> order_doc option \<Rightarrow> exn + send_result \<Rightarrow> ChangeStreamService \<Rightarrow>
   ChangeStreamService" where
  "handleDelete orderId previousDocument mail w =
     (let deletedOrderInfo =
            (case previousDocument of
               Some p \<Rightarrow> p
             | None \<Rightarrow> \<lparr>doc_id = orderId, customer_name = ''Unknown'',
                        product_name = ''Unknown'', status = ''deleted'', email = None\<rparr>);
          w1 = w\<lparr>webSocketService := broadcastOrderDeleted deletedOrderInfo (webSocketService w)\<rparr>
      in case previousDocument of
           Some p \<Rightarrow>
             if truthy (email p) then try_send (OrderCancelledEmail p) mail w1 else w1
         | None \<Rightarrow> w1)"

definition handleReplace ::
  "order_doc option \<Rightarrow> order_doc option \<Rightarrow> exn + send_result \<Rightarrow> ChangeStreamService \<Rightarrow>
   exn + ChangeStreamService" where
  "handleReplace document previousDocument mail w =
     (case document of
        None \<Rightarrow> Inl undefined_id
      | Some d \<Rightarrow> Inr (handleUpdate document previousDocument mail w))"

text \<open>
  \<^verbatim>\<open>handleChange\<close> run on its own, from the call to its return. \<open>mail\<close> is the
  outcome of the notification the handler awaits, if it sends one, and \<open>queries\<close> the
  outcome of the statistics queries. The log line before the try reads
  \<^verbatim>\<open>documentKey._id\<close> and throws when the event has no \<^verbatim>\<open>documentKey\<close>; an
  exception inside the try is caught and logged, and skips the statistics. The two places
  that throw inside the try do so before any effect.
\<close>

definition handleChange ::
  "change_event \<Rightarrow> exn + send_result \<Rightarrow> exn + nat \<times> (string \<times> nat) list \<Rightarrow>
   ChangeStreamService \<Rightarrow> exn + ChangeStreamService" where
  "handleChange change mail queries w =
     (case documentKey change of
        None \<Rightarrow> Inl undefined_id
      | Some key \<Rightarrow>
          (case (if operationType change = ''insert''
                 then handleInsert (fullDocument change) mail w
                 else if operationType change = ''update''
                 then Inr (handleUpdate (fullDocument change) (fullDocumentBeforeChange change) mail w)
                 else if operationType change = ''delete''
                 then Inr (handleDelete key (fullDocumentBeforeChange change) mail w)
                 else if operationType change = ''replace''
                 then handleReplace (fullDocument change) (fullDocumentBeforeChange change) mail w
                 else Inr w) of
             Inr w1 \<Rightarrow>
               Inr (w1\<lparr>webSocketService := broadcastStats queries (webSocketService w1)\<rparr>)
           | Inl error \<Rightarrow> Inr w))"

text \<open>The listener of the stream's \<^verbatim>\<open>change\<close> event: it catches and logs what \<^verbatim>\<open>handleChange\<close> throws.\<close>

definition on_change ::
  "change_event \<Rightarrow> exn + send_result \<Rightarrow> exn + nat \<times> (string \<times> nat) list \<Rightarrow>
   ChangeStreamService \<Rightarrow> ChangeStreamService" where
  "on_change change mail queries w =
     (case handleChange change mail queries w of Inr w1 \<Rightarrow> w1 | Inl error \<Rightarrow> w)"

text \<open>The emits made since the service was in state \<open>w\<close>.\<close>

definition emitted_since :: "ChangeStreamService \<Rightarrow> ChangeStreamService \<Rightarrow> emission list" where
  "emitted_since w w1 =
     drop (length (emitted (webSocketService w))) (emitted (webSocketService w1))"

subsection \<open>Lifecycle and retry\<close>

text \<open>
  \<^verbatim>\<open>startChangeStream\<close>. \<open>watch\<close> is what \<^verbatim>\<open>Order.collection.watch\<close> does this
  time: \<open>None\<close> when it returns a stream, \<open>Some error\<close> when it throws, which the
  function logs and rethrows. On success the listeners are attached, the handle is stored
  over whatever \<open>changeStream\<close> held, and \<open>retryCount\<close> is reset.
\<close>

definition startChangeStream ::
  "exn option \<Rightarrow> ChangeStreamService \<Rightarrow> exn + ChangeStreamService" where
  "startChangeStream watch w =
     (case watch of
        Some error \<Rightarrow> Inl error
      | None \<Rightarrow>
          Inr (w\<lparr>changeStream := Some (watched w), feeds := feeds w @ [watched w],
                 watched := Suc (watched w), retryCount := 0\<rparr>))"

text \<open>
  The block shared by \<^verbatim>\<open>handleError\<close> and \<^verbatim>\<open>stop\<close>:
  \<^verbatim>\<open>if (this.changeStream) { try { await this.changeStream.close() } catch ... ; this.changeStream = null }\<close>.
  An error of \<^verbatim>\<open>close\<close> is caught and logged; the model takes the stream as closed.
  (The stream's \<^verbatim>\<open>close\<close> listener sets \<open>isRunning\<close> to false, which both callers
  of this block do themselves.)
\<close>

definition closeChangeStream :: "ChangeStreamService \<Rightarrow> ChangeStreamService" where
  "closeChangeStream w =
     (case changeStream w of
        None \<Rightarrow> w
      | Some h \<Rightarrow> w\<lparr>feeds := removeAll h (feeds w), changeStream := None\<rparr>)"

definition handleError :: "exn \<Rightarrow> ChangeStreamService \<Rightarrow> ChangeStreamService" where
  "handleError error w =
     (let w1 = closeChangeStream w;
          w2 = w1\<lparr>isRunning := False\<rparr>
      in if retryCount w2 < maxRetries w2 then
           let w3 = w2\<lparr>retryCount := retryCount w2 + 1\<rparr>;
               delay = retryDelay w3 * 2 ^ (retryCount w3 - 1)
           in w3\<lparr>timers := timers w3 @ [delay]\<rparr>
         else
           w2\<lparr>webSocketService :=
                 broadcastCustomMessage ''service-error''
                   (ServiceError ''change-stream'' ''stopped''
                      ''Real-time updates temporarily unavailable'')
                   (webSocketService w2)\<rparr>)"

text \<open>
  \<^verbatim>\<open>start\<close>, from the point where the record store is reachable (before that the
  function waits for the \<^verbatim>\<open>connected\<close> event).
\<close>

definition start :: "exn option \<Rightarrow> ChangeStreamService \<Rightarrow> ChangeStreamService" where
  "start watch w =
     (case startChangeStream watch w of
        Inr w1 \<Rightarrow> w1\<lparr>isRunning := True\<rparr>
      | Inl error \<Rightarrow> handleError error w)"

definition stop :: "ChangeStreamService \<Rightarrow> ChangeStreamService" where
  "stop w = closeChangeStream (w\<lparr>isRunning := False\<rparr>)"

text \<open>
  The callback that \<^verbatim>\<open>handleError\<close> hands to \<^verbatim>\<open>setTimeout\<close>, run when the pending
  timer at position \<open>i\<close> expires; \<open>None\<close> when no such timer is pending.
\<close>

definition timerFires ::
  "nat \<Rightarrow> exn option \<Rightarrow> ChangeStreamService \<Rightarrow> ChangeStreamService option" where
  "timerFires i watch w =
     (if i < length (timers w) then
        let w0 = w\<lparr>timers := take i (timers w) @ drop (Suc i) (timers w)\<rparr>
        in Some (case startChangeStream watch w0 of
                   Inr w1 \<Rightarrow> w1\<lparr>isRunning := True\<rparr>
                 | Inl retryError \<Rightarrow> handleError retryError w0)
      else None)"

text \<open>
  Consecutive failed resubscribe attempts: for each error of the list in turn, the pending
  retry timer expires and \<^verbatim>\<open>startChangeStream\<close> throws that error. \<open>None\<close> when an
  attempt is due and no timer is pending.
\<close>

fun retryFailures :: "exn list \<Rightarrow> ChangeStreamService \<Rightarrow> ChangeStreamService option" where
  "retryFailures [] w = Some w"
| "retryFailures (e # es) w =
     (case timerFires 0 (Some e) w of
        None \<Rightarrow> None
      | Some w1 \<Rightarrow> retryFailures es w1)"

text \<open>The \<^verbatim>\<open>service-error\<close> broadcasts among the emits so far.\<close>

definition service_errors :: "ChangeStreamService \<Rightarrow> emission list" where
  "service_errors w =
     filter (\<lambda>e. event e = ''service-error'') (emitted (webSocketService w))"

text \<open>A service just constructed over a socket.io server with no connection and no emit yet.\<close>

definition no_rooms :: "string \<Rightarrow> string set" where
  "no_rooms sid = {}"

definition initial :: ChangeStreamService where
  "initial = constructor \<lparr>emitted = [], rooms = no_rooms\<rparr>"

subsection \<open>The listener under the event loop\<close>

text \<open>
  The stream calls the \<^verbatim>\<open>change\<close> listener once per event and does not wait for the
  promise the \<^verbatim>\<open>async\<close> listener returns. A call runs until the handler awaits I/O:
  the mail of \<^verbatim>\<open>emailService.sendX\<close> or the queries of \<^verbatim>\<open>broadcastStats\<close>. The handler
  is then suspended, and resumes when what it awaits settles. The four functions below
  are the parts of \<^verbatim>\<open>handleChange\<close> between these points.
\<close>

text \<open>Whether the handler throws before any effect (the listener or \<^verbatim>\<open>handleChange\<close> catches it).\<close>

definition throws :: "change_event \<Rightarrow> bool" where
  "throws change =
     (documentKey change = None \<or>
      (operationType change = ''insert'' \<or> operationType change = ''replace'') \<and>
      fullDocument change = None)"

text \<open>The record broadcast the handler makes, before any await.\<close>

definition announce :: "change_event \<Rightarrow> WebSocketService \<Rightarrow> WebSocketService" where
  "announce change ws =
     (case documentKey change of
        None \<Rightarrow> ws
      | Some key \<Rightarrow>
          if operationType change = ''insert'' then
            (case fullDocument change of
               Some d \<Rightarrow> broadcastOrderCreated d ws
             | None \<Rightarrow> ws)
          else if operationType change = ''update'' \<or> operationType change = ''replace'' then
            (case fullDocument change of
               Some d \<Rightarrow> broadcastOrderUpdated d (fullDocumentBeforeChange change) ws
             | None \<Rightarrow> ws)
          else if operationType change = ''delete'' then
            (case fullDocumentBeforeChange change of
               Some p \<Rightarrow> broadcastOrderDeleted p ws
             | None \<Rightarrow>
                 broadcastOrderDeleted
                   \<lparr>doc_id = key, customer_name = ''Unknown'', product_name = ''Unknown'',
                    status = ''deleted'', email = None\<rparr> ws)
          else ws)"

text \<open>The call on the email service that the handler awaits, if it makes one.\<close>

definition notification_of :: "change_event \<Rightarrow> notification option" where
  "notification_of change =
     (if throws change then None
      else if operationType change = ''insert'' then
        (case fullDocument change of
           Some d \<Rightarrow> if truthy (email d) then Some (OrderCreatedEmail d) else None
         | None \<Rightarrow> None)
      else if operationType change = ''update'' \<or> operationType change = ''replace'' then
        (case (fullDocument change, fullDocumentBeforeChange change) of
           (Some d, Some p) \<Rightarrow>
             if status p \<noteq> status d \<and> truthy (email d)
             then Some (StatusChangeEmail d (status p) (status d))
             else None
         | _ \<Rightarrow> None)
      else if operationType change = ''delete'' then
        (case fullDocumentBeforeChange change of
           Some p \<Rightarrow> if truthy (email p) then Some (OrderCancelledEmail p) else None
         | None \<Rightarrow> None)
      else None)"

text \<open>
  What \<^verbatim>\<open>handleUpdate\<close> does after its mail, or at once when it sends none: the
  \<^verbatim>\<open>order-delivered\<close> broadcast of a status change to delivered.
\<close>

definition milestone :: "change_event \<Rightarrow> WebSocketService \<Rightarrow> WebSocketService" where
  "milestone change ws =
     (if operationType change = ''update'' \<or> operationType change = ''replace'' then
        (case (fullDocument change, fullDocumentBeforeChange change) of
           (Some d, Some p) \<Rightarrow>
             if status p \<noteq> status d \<and> status d = ''delivered''
             then broadcastCustomMessage ''order-delivered''
                    (Delivered (doc_id d) (customer_name d) (product_name d)) ws
             else ws
         | _ \<Rightarrow> ws)
      else ws)"

text \<open>What a suspended handler awaits: the mail for a change, or the statistics queries.\<close>

datatype awaiting = AwaitingMail change_event | AwaitingQueries

text \<open>The service together with the handlers that are suspended, oldest first.\<close>

record event_loop =
  service :: ChangeStreamService
  suspended :: "awaiting list"

definition suspend :: "ChangeStreamService \<Rightarrow> awaiting \<Rightarrow> event_loop \<Rightarrow> event_loop" where
  "suspend w a l = \<lparr>service = w, suspended = suspended l @ [a]\<rparr>"

text \<open>The listener is called with a change and runs until its handler is suspended or has thrown.\<close>

definition accept :: "change_event \<Rightarrow> event_loop \<Rightarrow> event_loop" where
  "accept change l =
     (if throws change then l
      else
        let w = service l;
            w1 = w\<lparr>webSocketService := announce change (webSocketService w)\<rparr>
        in case notification_of change of
             Some n \<Rightarrow> suspend (w1\<lparr>notified := notified w1 @ [n]\<rparr>) (AwaitingMail change) l
           | None \<Rightarrow>
               suspend (w1\<lparr>webSocketService := milestone change (webSocketService w1)\<rparr>)
                 AwaitingQueries l)"

text \<open>
  What the environment does next: the feed delivers a change, the mail awaited by the
  suspended handler at a position settles, or the queries awaited by it settle.
\<close>

datatype move =
    Deliver change_event
  | MailSettles nat "exn + send_result"
  | QueriesSettle nat "exn + nat \<times> (string \<times> nat) list"

fun step :: "move \<Rightarrow> event_loop \<Rightarrow> event_loop option" where
  "step (Deliver change) l = Some (accept change l)"
| "step (MailSettles i mail) l =
     (if i < length (suspended l) then
        (case suspended l ! i of
           AwaitingMail change \<Rightarrow>
             Some \<lparr>service = (service l)\<lparr>webSocketService :=
                                  milestone change (webSocketService (service l))\<rparr>,
                   suspended = (suspended l)[i := AwaitingQueries]\<rparr>
         | AwaitingQueries \<Rightarrow> None)
      else None)"
| "step (QueriesSettle i queries) l =
     (if i < length (suspended l) then
        (case suspended l ! i of
           AwaitingQueries \<Rightarrow>
             Some \<lparr>service = (service l)\<lparr>webSocketService :=
                                  broadcastStats queries (webSocketService (service l))\<rparr>,
                   suspended = take i (suspended l) @ drop (Suc i) (suspended l)\<rparr>
         | AwaitingMail change \<Rightarrow> None)
      else None)"

fun run :: "move list \<Rightarrow> event_loop \<Rightarrow> event_loop option" where
  "run [] l = Some l"
| "run (m # ms) l = (case step m l of None \<Rightarrow> None | Some l1 \<Rightarrow> run ms l1)"

text \<open>The changes a schedule delivers, in the order of the feed.\<close>

fun delivered :: "move list \<Rightarrow> change_event list" where
  "delivered [] = []"
| "delivered (Deliver change # ms) = change # delivered ms"
| "delivered (m # ms) = delivered ms"

text \<open>One handler run from its call to its end with nothing else in between.\<close>

definition alone ::
  "change_event \<Rightarrow> exn + send_result \<Rightarrow> exn + nat \<times> (string \<times> nat) list \<Rightarrow> move list" where
  "alone change mail queries =
     (if throws change then [Deliver change]
      else if notification_of change = None then [Deliver change, QueriesSettle 0 queries]
      else [Deliver change, MailSettles 0 mail, QueriesSettle 0 queries])"

text \<open>The emits that are record broadcasts: the three per-operation events and the record-scoped copy.\<close>

definition record_broadcast :: "emission \<Rightarrow> bool" where
  "record_broadcast e =
     (event e = ''order-created'' \<or> event e = ''order-updated'' \<or>
      event e = ''order-deleted'' \<or> event e = ''order-update'')"

text \<open>The emits of the record broadcast for a change.\<close>

definition announced :: "change_event \<Rightarrow> emission list" where
  "announced change = emitted (announce change \<lparr>emitted = [], rooms = no_rooms\<rparr>)"

text \<open>The loop with no handler in flight.\<close>

definition idle :: "ChangeStreamService \<Rightarrow> event_loop" where
  "idle w = \<lparr>service = w, suspended = []\<rparr>"

text \<open>The \<^verbatim>\<open>service-error\<close> emit of \<^verbatim>\<open>handleError\<close>.\<close>

definition degraded :: emission where
  "degraded =
     \<lparr>target = Everyone, event = ''service-error'',
      payload = ServiceError ''change-stream'' ''stopped''
        ''Real-time updates temporarily unavailable''\<rparr>"

subsection \<open>Sample data\<close>

definition sample_order :: "string \<Rightarrow> string \<Rightarrow> string option \<Rightarrow> order_doc" where
  "sample_order i st em =
     \<lparr>doc_id = i, customer_name = ''Ada'', product_name = ''Lamp'', status = st, email = em\<rparr>"

definition sample_insert :: "string \<Rightarrow> change_event" where
  "sample_insert i =
     \<lparr>operationType = ''insert'', fullDocument = Some (sample_order i ''pending'' None),
      fullDocumentBeforeChange = None, documentKey = Some i\<rparr>"

definition sample_update :: "string \<Rightarrow> string \<Rightarrow> string \<Rightarrow> string option \<Rightarrow> change_event" where
  "sample_update i old new em =
     \<lparr>operationType = ''update'', fullDocument = Some (sample_order i new em),
      fullDocumentBeforeChange = Some (sample_order i old em), documentKey = Some i\<rparr>"

definition sample_delete :: "string \<Rightarrow> change_event" where
  "sample_delete i =
     \<lparr>operationType = ''delete'', fullDocument = None, fullDocumentBeforeChange = None,
      documentKey = Some i\<rparr>"

section \<open>What the broadcasts emit\<close>

lemma emit_emitted:
  "emitted (emit t ev p ws) = emitted ws @ [\<lparr>target = t, event = ev, payload = p\<rparr>]"
  by (simp add: emit_def)

lemma emit_rooms: "rooms (emit t ev p ws) = rooms ws"
  by (simp add: emit_def)

lemma emitted_broadcastOrderCreated:
  "emitted (broadcastOrderCreated order ws) = emitted ws @
     [\<lparr>target = Everyone, event = ''order-created'',
       payload = OrderPayload ''order-created'' order\<rparr>,
      \<lparr>target = Room (order_room (doc_id order)), event = ''order-update'',
       payload = OrderPayload ''order-created'' order\<rparr>]"
  by (simp add: broadcastOrderCreated_def emit_emitted Let_def)

lemma emitted_broadcastOrderUpdated:
  "emitted (broadcastOrderUpdated order prev ws) = emitted ws @
     [\<lparr>target = Everyone, event = ''order-updated'',
       payload = OrderUpdatedPayload ''order-updated'' order prev\<rparr>,
      \<lparr>target = Room (order_room (doc_id order)), event = ''order-update'',
       payload = OrderUpdatedPayload ''order-updated'' order prev\<rparr>]"
  by (simp add: broadcastOrderUpdated_def emit_emitted Let_def)

lemma emitted_broadcastOrderDeleted:
  "emitted (broadcastOrderDeleted order ws) = emitted ws @
     [\<lparr>target = Everyone, event = ''order-deleted'',
       payload = OrderPayload ''order-deleted'' order\<rparr>,
      \<lparr>target = Room (order_room (doc_id order)), event = ''order-update'',
       payload = OrderPayload ''order-deleted'' order\<rparr>]"
  by (simp add: broadcastOrderDeleted_def emit_emitted Let_def)

lemma emitted_broadcastStats:
  "emitted (broadcastStats queries ws) = emitted ws @
     (case queries of
        Inr (n, b) \<Rightarrow> [\<lparr>target = Everyone, event = ''order-stats'', payload = Stats n b\<rparr>]
      | Inl e \<Rightarrow> [])"
  by (simp add: broadcastStats_def emit_emitted split: sum.splits prod.splits)

lemma emitted_broadcastCustomMessage:
  "emitted (broadcastCustomMessage ev p ws) =
     emitted ws @ [\<lparr>target = Everyone, event = ev, payload = p\<rparr>]"
  by (simp add: broadcastCustomMessage_def emit_emitted)

lemmas emitted_simps =
  emitted_broadcastOrderCreated emitted_broadcastOrderUpdated emitted_broadcastOrderDeleted
  emitted_broadcastStats emitted_broadcastCustomMessage

lemma try_send_notified: "try_send n mail w = w\<lparr>notified := notified w @ [n]\<rparr>"
  by (simp add: try_send_def split: sum.splits)

text \<open>
  C10. Each of the three record broadcasts emits twice: to every connection under its own
  event name, and to the room \<^verbatim>\<open>order-<id>\<close> of the record under the one event name
  \<^verbatim>\<open>order-update\<close>, with the same payload, whose \<^verbatim>\<open>type\<close> field tells the operation.
\<close>

theorem record_scoped_copy_event_name:
  "emitted (broadcastOrderCreated order ws) = emitted ws @
     [\<lparr>target = Everyone, event = ''order-created'',
       payload = OrderPayload ''order-created'' order\<rparr>,
      \<lparr>target = Room (''order-'' @ doc_id order), event = ''order-update'',
       payload = OrderPayload ''order-created'' order\<rparr>] \<and>
   emitted (broadcastOrderUpdated order prev ws) = emitted ws @
     [\<lparr>target = Everyone, event = ''order-updated'',
       payload = OrderUpdatedPayload ''order-updated'' order prev\<rparr>,
      \<lparr>target = Room (''order-'' @ doc_id order), event = ''order-update'',
       payload = OrderUpdatedPayload ''order-updated'' order prev\<rparr>] \<and>
   emitted (broadcastOrderDeleted order ws) = emitted ws @
     [\<lparr>target = Everyone, event = ''order-deleted'',
       payload = OrderPayload ''order-deleted'' order\<rparr>,
      \<lparr>target = Room (''order-'' @ doc_id order), event = ''order-update'',
       payload = OrderPayload ''order-deleted'' order\<rparr>]"
  by (simp add: emitted_simps order_room_def)

section \<open>Handling one change\<close>

text \<open>
  C6. A delete event without a prior snapshot makes the listener emit one
  \<^verbatim>\<open>order-deleted\<close> broadcast, whose data is the stub with the given id and the status
  \<^verbatim>\<open>deleted\<close>, then the record-scoped copy of it and the statistics; it makes no call
  on the email service.
\<close>

theorem delete_without_snapshot:
  assumes "operationType change = ''delete''"
    and "fullDocumentBeforeChange change = None"
    and "documentKey change = Some key"
  shows "emitted_since w (on_change change mail queries w) =
           [\<lparr>target = Everyone, event = ''order-deleted'',
             payload = OrderPayload ''order-deleted''
               \<lparr>doc_id = key, customer_name = ''Unknown'', product_name = ''Unknown'',
                status = ''deleted'', email = None\<rparr>\<rparr>,
            \<lparr>target = Room (''order-'' @ key), event = ''order-update'',
             payload = OrderPayload ''order-deleted''
               \<lparr>doc_id = key, customer_name = ''Unknown'', product_name = ''Unknown'',
                status = ''deleted'', email = None\<rparr>\<rparr>] @
           (case queries of
              Inr (n, b) \<Rightarrow> [\<lparr>target = Everyone, event = ''order-stats'', payload = Stats n b\<rparr>]
            | Inl e \<Rightarrow> []) \<and>
         notified (on_change change mail queries w) = notified w"
  using assms
  by (simp add: on_change_def handleChange_def handleDelete_def emitted_since_def emitted_simps
      order_room_def)

theorem delete_without_snapshot_witness:
  "operationType (sample_delete ''42'') = ''delete'' \<and>
   fullDocumentBeforeChange (sample_delete ''42'') = None \<and>
   documentKey (sample_delete ''42'') = Some ''42'' \<and>
   emitted_since initial
     (on_change (sample_delete ''42'') (Inl (Error ''smtp'')) (Inl (Error ''db'')) initial) =
     [\<lparr>target = Everyone, event = ''order-deleted'',
       payload = OrderPayload ''order-deleted''
         \<lparr>doc_id = ''42'', customer_name = ''Unknown'', product_name = ''Unknown'',
          status = ''deleted'', email = None\<rparr>\<rparr>,
      \<lparr>target = Room ''order-42'', event = ''order-update'',
       payload = OrderPayload ''order-deleted''
         \<lparr>doc_id = ''42'', customer_name = ''Unknown'', product_name = ''Unknown'',
          status = ''deleted'', email = None\<rparr>\<rparr>] \<and>
   notified (on_change (sample_delete ''42'') (Inl (Error ''smtp'')) (Inl (Error ''db'')) initial) =
     notified initial"
proof -
  have h: "operationType (sample_delete ''42'') = ''delete''"
    "fullDocumentBeforeChange (sample_delete ''42'') = None"
    "documentKey (sample_delete ''42'') = Some ''42''"
    by (simp_all add: sample_delete_def)
  show ?thesis
    using h delete_without_snapshot [OF h, of initial "Inl (Error ''smtp'')" "Inl (Error ''db'')"]
    by simp
qed

text \<open>
  C4. For an update event that carries the record and its prior snapshot: when the two
  statuses are equal the listener makes no call on the email service; when they differ and
  the record has a contact address it makes the status-change call; when they differ and
  the new status is \<^verbatim>\<open>delivered\<close>, the emits to every connection, the statistics apart,
  are the \<^verbatim>\<open>order-updated\<close> broadcast followed by the \<^verbatim>\<open>order-delivered\<close> one.
\<close>

theorem update_notification_and_milestone:
  assumes "operationType change = ''update''"
    and "fullDocument change = Some d"
    and "fullDocumentBeforeChange change = Some p"
    and "documentKey change = Some key"
  shows "(status p = status d \<longrightarrow>
            notified (on_change change mail queries w) = notified w) \<and>
         (status p \<noteq> status d \<and> truthy (email d) \<longrightarrow>
            notified (on_change change mail queries w) =
              notified w @ [StatusChangeEmail d (status p) (status d)]) \<and>
         (status p \<noteq> status d \<and> status d = ''delivered'' \<longrightarrow>
            filter (\<lambda>e. target e = Everyone \<and> event e \<noteq> ''order-stats'')
              (emitted_since w (on_change change mail queries w)) =
              [\<lparr>target = Everyone, event = ''order-updated'',
                payload = OrderUpdatedPayload ''order-updated'' d (Some p)\<rparr>,
               \<lparr>target = Everyone, event = ''order-delivered'',
                payload = Delivered (doc_id d) (customer_name d) (product_name d)\<rparr>])"
  using assms
  by (simp add: on_change_def handleChange_def handleUpdate_def emitted_since_def emitted_simps
      try_send_notified Let_def split: sum.splits prod.splits)

theorem update_notification_and_milestone_witness:
  "operationType (sample_update ''7'' ''shipped'' ''shipped'' (Some ''ada@example.org'')) = ''update'' \<and>
   notified (on_change (sample_update ''7'' ''shipped'' ''shipped'' (Some ''ada@example.org''))
               (Inr (Sent ''id'' ''250 OK'')) (Inl (Error ''db'')) initial) = [] \<and>
   status (sample_order ''7'' ''shipped'' (Some ''ada@example.org'')) \<noteq>
     status (sample_order ''7'' ''delivered'' (Some ''ada@example.org'')) \<and>
   truthy (email (sample_order ''7'' ''delivered'' (Some ''ada@example.org''))) \<and>
   notified (on_change (sample_update ''7'' ''shipped'' ''delivered'' (Some ''ada@example.org''))
               (Inr (Sent ''id'' ''250 OK'')) (Inl (Error ''db'')) initial) =
     [StatusChangeEmail (sample_order ''7'' ''delivered'' (Some ''ada@example.org''))
        ''shipped'' ''delivered''] \<and>
   emitted_since initial
     (on_change (sample_update ''7'' ''shipped'' ''delivered'' (Some ''ada@example.org''))
        (Inr (Sent ''id'' ''250 OK'')) (Inl (Error ''db'')) initial) =
     [\<lparr>target = Everyone, event = ''order-updated'',
       payload = OrderUpdatedPayload ''order-updated''
         (sample_order ''7'' ''delivered'' (Some ''ada@example.org''))
         (Some (sample_order ''7'' ''shipped'' (Some ''ada@example.org'')))\<rparr>,
      \<lparr>target = Room ''order-7'', event = ''order-update'',
       payload = OrderUpdatedPayload ''order-updated''
         (sample_order ''7'' ''delivered'' (Some ''ada@example.org''))
         (Some (sample_order ''7'' ''shipped'' (Some ''ada@example.org'')))\<rparr>,
      \<lparr>target = Everyone, event = ''order-delivered'',
       payload = Delivered ''7'' ''Ada'' ''Lamp''\<rparr>]"
proof -
  let ?same = "sample_update ''7'' ''shipped'' ''shipped'' (Some ''ada@example.org'')"
  let ?diff = "sample_update ''7'' ''shipped'' ''delivered'' (Some ''ada@example.org'')"
  let ?old = "sample_order ''7'' ''shipped'' (Some ''ada@example.org'')"
  let ?new = "sample_order ''7'' ''delivered'' (Some ''ada@example.org'')"
  have same: "operationType ?same = ''update''" "fullDocument ?same = Some ?old"
    "fullDocumentBeforeChange ?same = Some ?old" "documentKey ?same = Some ''7''"
    by (simp_all add: sample_update_def)
  have diff: "operationType ?diff = ''update''" "fullDocument ?diff = Some ?new"
    "fullDocumentBeforeChange ?diff = Some ?old" "documentKey ?diff = Some ''7''"
    by (simp_all add: sample_update_def)
  have facts: "status ?old = ''shipped''" "status ?new = ''delivered''"
    "email ?new = Some ''ada@example.org''" "doc_id ?new = ''7''"
    "customer_name ?new = ''Ada''" "product_name ?new = ''Lamp''" "notified initial = []"
    by (simp_all add: sample_order_def initial_def constructor_def)
  have all: "emitted_since initial (on_change ?diff (Inr (Sent ''id'' ''250 OK'')) (Inl (Error ''db'')) initial) =
     [\<lparr>target = Everyone, event = ''order-updated'',
       payload = OrderUpdatedPayload ''order-updated'' ?new (Some ?old)\<rparr>,
      \<lparr>target = Room ''order-7'', event = ''order-update'',
       payload = OrderUpdatedPayload ''order-updated'' ?new (Some ?old)\<rparr>,
      \<lparr>target = Everyone, event = ''order-delivered'',
       payload = Delivered ''7'' ''Ada'' ''Lamp''\<rparr>]"
    by (simp add: on_change_def handleChange_def handleUpdate_def emitted_since_def emitted_simps
        try_send_notified Let_def diff facts order_room_def)
  show ?thesis
    using update_notification_and_milestone
            [OF same, of "Inr (Sent ''id'' ''250 OK'')" "Inl (Error ''db'')" initial]
          update_notification_and_milestone
            [OF diff, of "Inr (Sent ''id'' ''250 OK'')" "Inl (Error ''db'')" initial]
    by (simp add: same facts all)
qed

section \<open>The subscriptions of a connection\<close>

text \<open>
  C8. Handling \<^verbatim>\<open>subscribe-order\<close> twice for the same connection and order id leaves
  the rooms of every connection as handling it once does; handling
  \<^verbatim>\<open>unsubscribe-order\<close> for an order whose room the connection has not joined leaves the
  rooms as they were. The handlers return a state in every case: neither raises. (Each
  handled command with a truthy order id also emits a \<^verbatim>\<open>subscription-ack\<close> to the
  connection.)
\<close>

theorem subscribe_idempotent:
  "rooms (subscribe_order sid orderId (subscribe_order sid orderId ws)) =
     rooms (subscribe_order sid orderId ws) \<and>
   (order_room oid \<notin> rooms ws sid \<longrightarrow>
      rooms (unsubscribe_order sid (Some oid) ws) = rooms ws)"
  by (auto simp add: subscribe_order_def unsubscribe_order_def emit_rooms split: option.splits)

theorem subscribe_idempotent_witness:
  "rooms (subscribe_order ''s1'' (Some ''42'')
            (subscribe_order ''s1'' (Some ''42'') \<lparr>emitted = [], rooms = no_rooms\<rparr>)) =
     rooms (subscribe_order ''s1'' (Some ''42'') \<lparr>emitted = [], rooms = no_rooms\<rparr>) \<and>
   order_room ''42'' \<notin> rooms \<lparr>emitted = [], rooms = no_rooms\<rparr> ''s1'' \<and>
   rooms (unsubscribe_order ''s1'' (Some ''42'') \<lparr>emitted = [], rooms = no_rooms\<rparr>) =
     rooms \<lparr>emitted = [], rooms = no_rooms\<rparr>"
  using subscribe_idempotent [of "''s1''" "Some ''42''" "\<lparr>emitted = [], rooms = no_rooms\<rparr>" "''42''"]
  by (simp add: no_rooms_def)

section \<open>Sending mail\<close>

text \<open>
  C9. When the service is configured and \<^verbatim>\<open>EMAIL_TO\<close> is set to a non-empty string, the
  mail that \<^verbatim>\<open>sendEmail\<close> hands to the transporter is addressed to that string, whatever
  recipient the caller passed; so are the mails of the three notifications.
\<close>

theorem email_to_overrides_recipient:
  assumes "isConfigured es" and "EMAIL_TO env = Some a" and "a \<noteq> []"
  shows "sent (snd (sendEmail env delivery to subj body es)) =
           sent es @ [\<lparr>mail_from = js_or (EMAIL_FROM env) (EMAIL_USER env), mail_to = Some a,
                       subject = subj, html = body\<rparr>] \<and>
         map mail_to (sent (snd (sendOrderCreatedEmail env delivery order es))) =
           map mail_to (sent es) @ [Some a] \<and>
         map mail_to (sent (snd (sendStatusChangeEmail env delivery order oldStatus newStatus es))) =
           map mail_to (sent es) @ [Some a] \<and>
         map mail_to (sent (snd (sendOrderCancelledEmail env delivery order es))) =
           map mail_to (sent es) @ [Some a]"
  using assms
  by (simp add: sendOrderCreatedEmail_def sendStatusChangeEmail_def sendOrderCancelledEmail_def
      sendEmail_def js_or_def Let_def split: sum.splits mail_info.splits mail_error.splits)

theorem email_to_overrides_recipient_witness:
  "isConfigured \<lparr>isConfigured = True, sent = []\<rparr> \<and>
   EMAIL_TO \<lparr>EMAIL_TO = Some ''ops@example.org'', EMAIL_FROM = None,
             EMAIL_USER = Some ''shop@example.org''\<rparr> = Some ''ops@example.org'' \<and>
   ''ops@example.org'' \<noteq> [] \<and>
   sent (snd (sendEmail
     \<lparr>EMAIL_TO = Some ''ops@example.org'', EMAIL_FROM = None,
      EMAIL_USER = Some ''shop@example.org''\<rparr>
     (Inr (MailInfo ''id'' ''250 OK'')) (Some ''ada@example.org'') ''Hello'' ''<p>Hi</p>''
     \<lparr>isConfigured = True, sent = []\<rparr>)) =
     [\<lparr>mail_from = Some ''shop@example.org'', mail_to = Some ''ops@example.org'',
       subject = ''Hello'', html = ''<p>Hi</p>''\<rparr>]"
proof -
  let ?env = "\<lparr>EMAIL_TO = Some ''ops@example.org'', EMAIL_FROM = None,
               EMAIL_USER = Some ''shop@example.org''\<rparr>"
  let ?es = "\<lparr>isConfigured = True, sent = []\<rparr>"
  have h: "isConfigured ?es" "EMAIL_TO ?env = Some ''ops@example.org''" "''ops@example.org'' \<noteq> []"
    by simp_all
  show ?thesis
    using h email_to_overrides_recipient
              [OF h, of "Inr (MailInfo ''id'' ''250 OK'')" "Some ''ada@example.org''"
                 "''Hello''" "''<p>Hi</p>''"]
    by (simp add: js_or_def)
qed

section \<open>The listener in parts\<close>

text \<open>
  The listener, run on its own, does what its parts do one after the other; what the
  awaited mail yields has no part in it.
\<close>

lemma on_change_throws: "throws change \<Longrightarrow> on_change change mail queries w = w"
  by (auto simp add: throws_def on_change_def handleChange_def handleInsert_def handleReplace_def
      split: option.splits)

lemma operation_cases:
  obtains (ins) "operationType change = ''insert''"
  | (upd) "operationType change = ''update''"
  | (del) "operationType change = ''delete''"
  | (rep) "operationType change = ''replace''"
  | (other) "operationType change \<noteq> ''insert''" "operationType change \<noteq> ''update''"
      "operationType change \<noteq> ''delete''" "operationType change \<noteq> ''replace''"
  by blast

lemma on_change_quiet:
  assumes "\<not> throws change" and "notification_of change = None"
  shows "on_change change mail queries w =
     w\<lparr>webSocketService :=
         broadcastStats queries (milestone change (announce change (webSocketService w)))\<rparr>"
proof -
  from assms(1) obtain key where key: "documentKey change = Some key"
    by (auto simp add: throws_def)
  show ?thesis
  proof (cases change rule: operation_cases)
    case ins
    with assms key show ?thesis
      by (auto simp add: throws_def notification_of_def on_change_def handleChange_def
          handleInsert_def announce_def milestone_def split: option.splits if_splits)
  next
    case upd
    with assms key show ?thesis
      by (auto simp add: throws_def notification_of_def on_change_def handleChange_def
          handleUpdate_def announce_def milestone_def Let_def split: option.splits if_splits)
  next
    case del
    with assms key show ?thesis
      by (auto simp add: throws_def notification_of_def on_change_def handleChange_def
          handleDelete_def announce_def milestone_def Let_def split: option.splits if_splits)
  next
    case rep
    with assms key show ?thesis
      by (auto simp add: throws_def notification_of_def on_change_def handleChange_def
          handleReplace_def handleUpdate_def announce_def milestone_def Let_def
          split: option.splits if_splits)
  next
    case other
    with assms key show ?thesis
      by (simp add: on_change_def handleChange_def announce_def milestone_def)
  qed
qed

lemma on_change_mail:
  assumes "\<not> throws change" and "notification_of change = Some n"
  shows "on_change change mail queries w =
     w\<lparr>webSocketService :=
         broadcastStats queries (milestone change (announce change (webSocketService w))),
       notified := notified w @ [n]\<rparr>"
proof -
  from assms(1) obtain key where key: "documentKey change = Some key"
    by (auto simp add: throws_def)
  show ?thesis
  proof (cases change rule: operation_cases)
    case ins
    with assms key show ?thesis
      by (auto simp add: throws_def notification_of_def on_change_def handleChange_def
          handleInsert_def announce_def milestone_def try_send_notified
          split: option.splits if_splits)
  next
    case upd
    with assms key show ?thesis
      by (auto simp add: throws_def notification_of_def on_change_def handleChange_def
          handleUpdate_def announce_def milestone_def Let_def try_send_notified
          split: option.splits if_splits)
  next
    case del
    with assms key show ?thesis
      by (auto simp add: throws_def notification_of_def on_change_def handleChange_def
          handleDelete_def announce_def milestone_def Let_def try_send_notified
          split: option.splits if_splits)
  next
    case rep
    with assms key show ?thesis
      by (auto simp add: throws_def notification_of_def on_change_def handleChange_def
          handleReplace_def handleUpdate_def announce_def milestone_def Let_def
          try_send_notified split: option.splits if_splits)
  next
    case other
    with assms key show ?thesis
      by (simp add: notification_of_def)
  qed
qed

lemma on_change_any_mail:
  "on_change change mail queries w = on_change change mail1 queries w"
proof (cases "throws change")
  case True
  then show ?thesis by (simp add: on_change_throws)
next
  case False
  then show ?thesis
    by (cases "notification_of change") (simp_all add: on_change_quiet on_change_mail)
qed

lemma alone_on_change:
  "run (alone change mail queries) (idle w) = Some (idle (on_change change mail queries w))"
proof (cases "throws change")
  case True
  then show ?thesis
    by (simp add: alone_def accept_def idle_def on_change_throws)
next
  case False
  show ?thesis
  proof (cases "notification_of change")
    case None
    with False show ?thesis
      by (simp add: alone_def accept_def idle_def suspend_def Let_def on_change_quiet)
  next
    case (Some n)
    with False show ?thesis
      by (simp add: alone_def accept_def idle_def suspend_def Let_def on_change_mail)
  qed
qed

text \<open>
  C7. A service that is not configured answers each of the three notification calls with
  the not-configured result and hands nothing to the transporter. A configured one turns a
  send that the transporter rejects into a result object with \<^verbatim>\<open>success: false\<close>. And
  whatever the awaited call yields, an exception included, the listener ends in the same
  state, so a failed notification changes nothing in the handling of the change.
\<close>

theorem notification_failures_isolated:
  "(\<not> isConfigured es \<longrightarrow>
      sendOrderCreatedEmail env delivery order es =
        (NotConfigured ''Email service not configured'', es) \<and>
      sendStatusChangeEmail env delivery order oldStatus newStatus es =
        (NotConfigured ''Email service not configured'', es) \<and>
      sendOrderCancelledEmail env delivery order es =
        (NotConfigured ''Email service not configured'', es)) \<and>
   (isConfigured es \<longrightarrow>
      fst (sendEmail env (Inl (MailError msg code)) to subj body es) = Failed msg code \<and>
      \<not> success (fst (sendEmail env (Inl (MailError msg code)) to subj body es))) \<and>
   on_change change (Inl error) queries w = on_change change (Inr result) queries w"
proof -
  have "on_change change (Inl error) queries w = on_change change (Inr result) queries w"
    by (rule on_change_any_mail)
  then show ?thesis
    by (simp add: sendOrderCreatedEmail_def sendStatusChangeEmail_def
        sendOrderCancelledEmail_def sendEmail_def Let_def)
qed

theorem notification_failures_isolated_witness:
  "\<not> isConfigured \<lparr>isConfigured = False, sent = []\<rparr> \<and>
   sendOrderCreatedEmail \<lparr>EMAIL_TO = None, EMAIL_FROM = None, EMAIL_USER = None\<rparr>
     (Inr (MailInfo ''id'' ''250 OK'')) (sample_order ''7'' ''pending'' (Some ''ada@example.org''))
     \<lparr>isConfigured = False, sent = []\<rparr> =
     (NotConfigured ''Email service not configured'', \<lparr>isConfigured = False, sent = []\<rparr>) \<and>
   isConfigured \<lparr>isConfigured = True, sent = []\<rparr> \<and>
   fst (sendEmail \<lparr>EMAIL_TO = None, EMAIL_FROM = None, EMAIL_USER = Some ''shop@example.org''\<rparr>
     (Inl (MailError ''Mailbox unavailable'' (Some ''EENVELOPE''))) (Some ''ada@example.org'')
     ''Hello'' ''<p>Hi</p>'' \<lparr>isConfigured = True, sent = []\<rparr>) =
     Failed ''Mailbox unavailable'' (Some ''EENVELOPE'') \<and>
   on_change (sample_update ''7'' ''shipped'' ''delivered'' (Some ''ada@example.org''))
     (Inl (Error ''boom'')) (Inl (Error ''db'')) initial =
   on_change (sample_update ''7'' ''shipped'' ''delivered'' (Some ''ada@example.org''))
     (Inr (Sent ''id'' ''250 OK'')) (Inl (Error ''db'')) initial"
  using notification_failures_isolated
          [of "\<lparr>isConfigured = False, sent = []\<rparr>"
              "\<lparr>EMAIL_TO = None, EMAIL_FROM = None, EMAIL_USER = None\<rparr>"
              "Inr (MailInfo ''id'' ''250 OK'')"
              "sample_order ''7'' ''pending'' (Some ''ada@example.org'')"]
        notification_failures_isolated
          [of "\<lparr>isConfigured = True, sent = []\<rparr>"
              "\<lparr>EMAIL_TO = None, EMAIL_FROM = None, EMAIL_USER = Some ''shop@example.org''\<rparr>"
              _ _ _ _ "''Mailbox unavailable''" "Some ''EENVELOPE''" "Some ''ada@example.org''"
              "''Hello''" "''<p>Hi</p>''"
              "sample_update ''7'' ''shipped'' ''delivered'' (Some ''ada@example.org'')"
              "Error ''boom''" "Inl (Error ''db'')" initial "Sent ''id'' ''250 OK''"]
  by simp

section \<open>Lifecycle\<close>

lemma closeChangeStream_fields:
  "changeStream (closeChangeStream w) = None"
  "timers (closeChangeStream w) = timers w"
  "retryCount (closeChangeStream w) = retryCount w"
  "maxRetries (closeChangeStream w) = maxRetries w"
  "retryDelay (closeChangeStream w) = retryDelay w"
  "watched (closeChangeStream w) = watched w"
  "webSocketService (closeChangeStream w) = webSocketService w"
  by (simp_all add: closeChangeStream_def split: option.splits)

lemma stop_fields:
  "timers (stop w) = timers w"
  "retryCount (stop w) = retryCount w"
  "isRunning (stop w) = False"
  "changeStream (stop w) = None"
  "watched (stop w) = watched w"
  "feeds (stop w) = (case changeStream w of None \<Rightarrow> feeds w | Some h \<Rightarrow> removeAll h (feeds w))"
  by (simp_all add: stop_def closeChangeStream_def split: option.splits)

text \<open>
  C1, as the code has it. \<^verbatim>\<open>stop\<close> marks the service as not running and closes the
  stream it holds: the handle is cleared and the stream is no longer among the open
  feeds, while every other feed stays as it was. It leaves every pending retry timer
  pending: a timer that was pending when \<^verbatim>\<open>stop\<close> was called still expires afterwards
  and runs its resubscribe attempt, and when \<^verbatim>\<open>watch\<close> then returns a stream the
  service is running again, watching it.
\<close>

theorem stop_leaves_retry_timer:
  "timers (stop w) = timers w \<and> \<not> isRunning (stop w) \<and> changeStream (stop w) = None \<and>
   feeds (stop w) =
     (case changeStream w of None \<Rightarrow> feeds w | Some h \<Rightarrow> removeAll h (feeds w)) \<and>
   (changeStream w = Some h \<longrightarrow> h \<notin> set (feeds (stop w))) \<and>
   (i < length (timers w) \<longrightarrow>
      timerFires i watch (stop w) \<noteq> None \<and>
      map_option isRunning (timerFires i None (stop w)) = Some True \<and>
      map_option changeStream (timerFires i None (stop w)) = Some (Some (watched w)) \<and>
      map_option feeds (timerFires i None (stop w)) = Some (feeds (stop w) @ [watched w]))"
  by (simp add: stop_fields timerFires_def startChangeStream_def Let_def)

text \<open>
  A service whose first \<^verbatim>\<open>start\<close> failed, so that a retry is pending in 5000 ms, and
  that was then started by hand: it watches the stream 0 while the timer is pending.
  \<^verbatim>\<open>stop\<close> closes the stream 0 and keeps the timer, which then opens the stream 1.
\<close>

theorem stop_leaves_retry_timer_witness:
  "changeStream (start None (start (Some (Error ''down'')) initial)) = Some 0 \<and>
   feeds (start None (start (Some (Error ''down'')) initial)) = [0] \<and>
   0 < length (timers (start None (start (Some (Error ''down'')) initial))) \<and>
   feeds (stop (start None (start (Some (Error ''down'')) initial))) = [] \<and>
   changeStream (stop (start None (start (Some (Error ''down'')) initial))) = None \<and>
   timers (stop (start None (start (Some (Error ''down'')) initial))) = [5000] \<and>
   timerFires 0 (Some (Error ''down''))
     (stop (start None (start (Some (Error ''down'')) initial))) \<noteq> None \<and>
   map_option feeds
     (timerFires 0 None (stop (start None (start (Some (Error ''down'')) initial)))) =
     Some [1]"
proof -
  have t: "changeStream (start None (start (Some (Error ''down'')) initial)) = Some 0"
    "feeds (start None (start (Some (Error ''down'')) initial)) = [0]"
    "timers (start None (start (Some (Error ''down'')) initial)) = [5000]"
    "watched (start None (start (Some (Error ''down'')) initial)) = 1"
    by (simp_all add: start_def initial_def constructor_def startChangeStream_def
        handleError_def closeChangeStream_def Let_def)
  show ?thesis
    using stop_leaves_retry_timer
            [of "start None (start (Some (Error ''down'')) initial)" 0 0 "Some (Error ''down'')"]
    by (auto simp add: t)
qed

text \<open>
  The retry that \<^verbatim>\<open>stop\<close> was to cancel: a service whose first \<^verbatim>\<open>start\<close> failed has a
  retry pending in 5000 ms; it is stopped; the timer is still pending, and when it expires
  the service subscribes and runs.
\<close>

theorem retry_fires_after_stop_counterexample:
  "timers (stop (start (Some (Error ''down'')) initial)) = [5000] \<and>
   map_option isRunning
     (timerFires 0 None (stop (start (Some (Error ''down'')) initial))) = Some True \<and>
   map_option changeStream
     (timerFires 0 None (stop (start (Some (Error ''down'')) initial))) = Some (Some 0)"
  by (simp add: stop_def start_def initial_def constructor_def startChangeStream_def
      handleError_def closeChangeStream_def timerFires_def Let_def)

text \<open>
  C5, as the code has it. \<^verbatim>\<open>start\<close> has no guard: called while the service is running
  and watching a stream, with \<^verbatim>\<open>watch\<close> returning a stream, it opens one more feed
  subscription, leaves the earlier one open and stores the new handle in its place. The
  service stays running with a retry count of 0, and nothing is scheduled or broadcast.
\<close>

theorem start_while_watching_opens_feed:
  assumes "isRunning w" and "changeStream w = Some h" and "h \<in> set (feeds w)"
  shows "feeds (start None w) = feeds w @ [watched w] \<and>
         h \<in> set (feeds (start None w)) \<and>
         changeStream (start None w) = Some (watched w) \<and>
         isRunning (start None w) \<and> retryCount (start None w) = 0 \<and>
         timers (start None w) = timers w \<and>
         webSocketService (start None w) = webSocketService w"
  using assms by (simp add: start_def startChangeStream_def)

theorem start_while_watching_opens_feed_witness:
  "isRunning (start None initial) \<and> changeStream (start None initial) = Some 0 \<and>
   0 \<in> set (feeds (start None initial)) \<and>
   feeds (start None (start None initial)) = [0, 1] \<and>
   changeStream (start None (start None initial)) = Some 1"
proof -
  have h: "isRunning (start None initial)" "changeStream (start None initial) = Some 0"
    "0 \<in> set (feeds (start None initial))"
    by (simp_all add: start_def initial_def constructor_def startChangeStream_def)
  have f: "feeds (start None initial) = [0]" "watched (start None initial) = 1"
    by (simp_all add: start_def initial_def constructor_def startChangeStream_def)
  show ?thesis
    using h start_while_watching_opens_feed [OF h] by (simp add: f)
qed

text \<open>A second \<^verbatim>\<open>start\<close> on a running service changes its state: two feeds are open.\<close>

theorem start_twice_counterexample:
  "isRunning (start None initial) \<and>
   start None (start None initial) \<noteq> start None initial \<and>
   feeds (start None initial) = [0] \<and>
   feeds (start None (start None initial)) = [0, 1]"
proof -
  have f: "feeds (start None initial) = [0]" "feeds (start None (start None initial)) = [0, 1]"
    "isRunning (start None initial)"
    by (simp_all add: start_def initial_def constructor_def startChangeStream_def)
  then have "feeds (start None (start None initial)) \<noteq> feeds (start None initial)"
    by simp
  then have "start None (start None initial) \<noteq> start None initial"
    by metis
  with f show ?thesis by simp
qed

section \<open>Retry with backoff\<close>

lemma handleError_retry:
  "changeStream w = None \<Longrightarrow> retryCount w < maxRetries w \<Longrightarrow>
   handleError e w =
     w\<lparr>isRunning := False, retryCount := retryCount w + 1,
       timers := timers w @ [retryDelay w * 2 ^ retryCount w]\<rparr>"
  by (simp add: handleError_def closeChangeStream_def Let_def)

lemma handleError_exhausted:
  "changeStream w = None \<Longrightarrow> \<not> retryCount w < maxRetries w \<Longrightarrow>
   handleError e w =
     w\<lparr>isRunning := False,
       webSocketService :=
         (webSocketService w)\<lparr>emitted := emitted (webSocketService w) @ [degraded]\<rparr>\<rparr>"
  by (simp add: handleError_def closeChangeStream_def Let_def broadcastCustomMessage_def
      emit_def degraded_def)

lemma timerFires_fails:
  "timers w = [t] \<Longrightarrow> timerFires 0 (Some e) w = Some (handleError e (w\<lparr>timers := []\<rparr>))"
  by (simp add: timerFires_def startChangeStream_def Let_def)

lemma retryFailures_no_timer:
  "timers w = [] \<Longrightarrow> retryFailures es w = (if es = [] then Some w else None)"
  by (cases es) (simp_all add: timerFires_def)

text \<open>
  From a state with one retry pending, a run of failed attempts: while the count stays
  within the maximum each failure schedules the next attempt with the doubled delay; the
  failure at the maximum broadcasts the service error and schedules nothing; after that
  no attempt can fire.
\<close>

lemma retry_chain:
  "changeStream w = None \<Longrightarrow> timers w = [t] \<Longrightarrow> retryCount w \<le> maxRetries w \<Longrightarrow>
   es \<noteq> [] \<Longrightarrow>
   retryFailures es w =
     (if retryCount w + length es \<le> maxRetries w then
        Some (w\<lparr>isRunning := False, retryCount := retryCount w + length es,
               timers := [retryDelay w * 2 ^ (retryCount w + length es - 1)]\<rparr>)
      else if retryCount w + length es = maxRetries w + 1 then
        Some (w\<lparr>isRunning := False, retryCount := maxRetries w, timers := [],
               webSocketService :=
                 (webSocketService w)\<lparr>emitted := emitted (webSocketService w) @ [degraded]\<rparr>\<rparr>)
      else None)"
proof (induction es arbitrary: w t)
  case Nil
  then show ?case by simp
next
  case (Cons e es)
  show ?case
  proof (cases "retryCount w < maxRetries w")
    case True
    define w1 where
      "w1 = w\<lparr>isRunning := False, retryCount := retryCount w + 1,
               timers := [retryDelay w * 2 ^ retryCount w]\<rparr>"
    have fire: "timerFires 0 (Some e) w = Some w1"
      using Cons.prems True by (simp add: timerFires_fails handleError_retry w1_def)
    show ?thesis
    proof (cases "es = []")
      case True
      with Cons.prems \<open>retryCount w < maxRetries w\<close> show ?thesis
        by (simp add: fire w1_def)
    next
      case False
      have "retryFailures es w1 =
        (if retryCount w1 + length es \<le> maxRetries w1 then
           Some (w1\<lparr>isRunning := False, retryCount := retryCount w1 + length es,
                  timers := [retryDelay w1 * 2 ^ (retryCount w1 + length es - 1)]\<rparr>)
         else if retryCount w1 + length es = maxRetries w1 + 1 then
           Some (w1\<lparr>isRunning := False, retryCount := maxRetries w1, timers := [],
                  webSocketService :=
                    (webSocketService w1)\<lparr>emitted := emitted (webSocketService w1) @ [degraded]\<rparr>\<rparr>)
         else None)"
        using Cons.prems True False by (intro Cons.IH) (simp_all add: w1_def)
      then show ?thesis
        using Cons.prems by (simp add: fire) (simp add: w1_def)
    qed
  next
    case False
    with Cons.prems have eq: "retryCount w = maxRetries w" by simp
    have same:
      "w\<lparr>isRunning := False, retryCount := maxRetries w, timers := [],
         webSocketService :=
           (webSocketService w)\<lparr>emitted := emitted (webSocketService w) @ [degraded]\<rparr>\<rparr> =
       w\<lparr>isRunning := False, timers := [],
         webSocketService :=
           (webSocketService w)\<lparr>emitted := emitted (webSocketService w) @ [degraded]\<rparr>\<rparr>"
      using eq by (cases w) simp
    have "handleError e (w\<lparr>timers := []\<rparr>) =
      w\<lparr>isRunning := False, timers := [],
        webSocketService :=
          (webSocketService w)\<lparr>emitted := emitted (webSocketService w) @ [degraded]\<rparr>\<rparr>"
      using Cons.prems False by (simp add: handleError_exhausted)
    then show ?thesis
      using Cons.prems eq by (simp add: timerFires_fails retryFailures_no_timer same)
  qed
qed

lemma handleError_first:
  assumes "retryCount w = 0" and "timers w = []" and "0 < maxRetries w"
  shows "handleError e w =
     (closeChangeStream w)\<lparr>isRunning := False, retryCount := 1, timers := [retryDelay w]\<rparr>"
  using assms by (simp add: handleError_def closeChangeStream_fields Let_def)

lemma handleError_none:
  assumes "retryCount w = 0" and "timers w = []" and "maxRetries w = 0"
  shows "handleError e w =
     (closeChangeStream w)\<lparr>isRunning := False,
       webSocketService :=
         (webSocketService w)\<lparr>emitted := emitted (webSocketService w) @ [degraded]\<rparr>\<rparr>"
  using assms
  by (simp add: handleError_def closeChangeStream_fields Let_def broadcastCustomMessage_def
      emit_def degraded_def)

lemma retry_run:
  assumes "retryCount w = 0" and "timers w = []"
  shows "retryFailures es (handleError e w) =
     (if length es < maxRetries w then
        Some ((closeChangeStream w)\<lparr>isRunning := False, retryCount := length es + 1,
               timers := [retryDelay w * 2 ^ length es]\<rparr>)
      else if length es = maxRetries w then
        Some ((closeChangeStream w)\<lparr>isRunning := False, retryCount := maxRetries w,
               timers := [],
               webSocketService :=
                 (webSocketService w)\<lparr>emitted := emitted (webSocketService w) @ [degraded]\<rparr>\<rparr>)
      else None)"
proof (cases "0 < maxRetries w")
  case True
  define w0 where
    "w0 = (closeChangeStream w)\<lparr>isRunning := False, retryCount := 1, timers := [retryDelay w]\<rparr>"
  have h: "handleError e w = w0"
    using assms True by (simp add: handleError_first w0_def)
  show ?thesis
  proof (cases "es = []")
    case True
    with \<open>0 < maxRetries w\<close> show ?thesis by (simp add: h w0_def)
  next
    case False
    have "retryFailures es w0 =
      (if retryCount w0 + length es \<le> maxRetries w0 then
         Some (w0\<lparr>isRunning := False, retryCount := retryCount w0 + length es,
                timers := [retryDelay w0 * 2 ^ (retryCount w0 + length es - 1)]\<rparr>)
       else if retryCount w0 + length es = maxRetries w0 + 1 then
         Some (w0\<lparr>isRunning := False, retryCount := maxRetries w0, timers := [],
                webSocketService :=
                  (webSocketService w0)\<lparr>emitted := emitted (webSocketService w0) @ [degraded]\<rparr>\<rparr>)
       else None)"
      using True False by (intro retry_chain) (simp_all add: w0_def closeChangeStream_fields)
    then show ?thesis
      by (simp add: h) (auto simp add: w0_def closeChangeStream_fields)
  qed
next
  case False
  then have m: "maxRetries w = 0" by simp
  have rc: "(closeChangeStream w)\<lparr>retryCount := 0\<rparr> = closeChangeStream w"
    using assms by (simp add: closeChangeStream_fields)
  show ?thesis
    using assms m rc
    by (simp add: handleError_none retryFailures_no_timer closeChangeStream_fields)
qed

text \<open>
  C2. The feed fails in a service with no retry under way (\<open>handleError e w\<close>), and then
  every resubscribe attempt fails, with the errors \<open>es\<close> in turn. After \<open>n - 1\<close> failed
  attempts, for \<open>n\<close> up to \<open>maxRetries\<close>, the \<open>n\<close>-th attempt is the one pending timer
  and its delay is \<open>retryDelay * 2 ^ (n - 1)\<close>, and no \<^verbatim>\<open>service-error\<close> has been
  added. After \<open>maxRetries\<close> failed attempts no timer is pending and exactly one
  \<^verbatim>\<open>service-error\<close> broadcast has been added. A further attempt never fires: there is
  no run with more than \<open>maxRetries\<close> failed attempts. (\<^verbatim>\<open>Math.pow\<close> is exact on these
  integers.)
\<close>

theorem retry_backoff_schedule:
  assumes "retryCount w = 0" and "timers w = []"
  shows "(length es < maxRetries w \<longrightarrow>
            map_option timers (retryFailures es (handleError e w)) =
              Some [retryDelay w * 2 ^ length es] \<and>
            map_option retryCount (retryFailures es (handleError e w)) = Some (length es + 1) \<and>
            map_option service_errors (retryFailures es (handleError e w)) =
              Some (service_errors w)) \<and>
         (length es = maxRetries w \<longrightarrow>
            map_option timers (retryFailures es (handleError e w)) = Some [] \<and>
            map_option service_errors (retryFailures es (handleError e w)) =
              Some (service_errors w @
                [\<lparr>target = Everyone, event = ''service-error'',
                  payload = ServiceError ''change-stream'' ''stopped''
                    ''Real-time updates temporarily unavailable''\<rparr>])) \<and>
         (maxRetries w < length es \<longrightarrow> retryFailures es (handleError e w) = None)"
  using assms by (simp add: retry_run service_errors_def closeChangeStream_fields degraded_def)

text \<open>Under the constructor's policy, 5 attempts from 5000 ms: the delays are 5, 10, 20, 40 and 80 s.\<close>

theorem retry_backoff_schedule_witness:
  "retryCount initial = 0 \<and> timers initial = [] \<and>
   map_option timers (retryFailures [] (handleError (Error ''down'') initial)) = Some [5000] \<and>
   map_option timers
     (retryFailures [Error ''1''] (handleError (Error ''down'') initial)) = Some [10000] \<and>
   map_option timers
     (retryFailures [Error ''1'', Error ''2''] (handleError (Error ''down'') initial)) =
     Some [20000] \<and>
   map_option timers
     (retryFailures [Error ''1'', Error ''2'', Error ''3'']
        (handleError (Error ''down'') initial)) = Some [40000] \<and>
   map_option timers
     (retryFailures [Error ''1'', Error ''2'', Error ''3'', Error ''4'']
        (handleError (Error ''down'') initial)) = Some [80000] \<and>
   map_option timers
     (retryFailures [Error ''1'', Error ''2'', Error ''3'', Error ''4'', Error ''5'']
        (handleError (Error ''down'') initial)) = Some [] \<and>
   map_option service_errors
     (retryFailures [Error ''1'', Error ''2'', Error ''3'', Error ''4'', Error ''5'']
        (handleError (Error ''down'') initial)) =
     Some [\<lparr>target = Everyone, event = ''service-error'',
            payload = ServiceError ''change-stream'' ''stopped''
              ''Real-time updates temporarily unavailable''\<rparr>] \<and>
   retryFailures [Error ''1'', Error ''2'', Error ''3'', Error ''4'', Error ''5'', Error ''6'']
     (handleError (Error ''down'') initial) = None"
proof -
  have i: "retryCount initial = 0" "timers initial = []" "maxRetries initial = 5"
    "retryDelay initial = 5000" "service_errors initial = []"
    by (simp_all add: initial_def constructor_def service_errors_def)
  show ?thesis
    using retry_backoff_schedule [OF i(1,2), of "[]" "Error ''down''"]
      retry_backoff_schedule [OF i(1,2), of "[Error ''1'']" "Error ''down''"]
      retry_backoff_schedule [OF i(1,2), of "[Error ''1'', Error ''2'']" "Error ''down''"]
      retry_backoff_schedule
        [OF i(1,2), of "[Error ''1'', Error ''2'', Error ''3'']" "Error ''down''"]
      retry_backoff_schedule
        [OF i(1,2), of "[Error ''1'', Error ''2'', Error ''3'', Error ''4'']" "Error ''down''"]
      retry_backoff_schedule
        [OF i(1,2), of "[Error ''1'', Error ''2'', Error ''3'', Error ''4'', Error ''5'']"
           "Error ''down''"]
      retry_backoff_schedule
        [OF i(1,2),
         of "[Error ''1'', Error ''2'', Error ''3'', Error ''4'', Error ''5'', Error ''6'']"
           "Error ''down''"]
    by (simp add: i del: retryFailures.simps)
qed

section \<open>Order of handling under the event loop\<close>

lemma emitted_announce: "emitted (announce change ws) = emitted ws @ announced change"
  by (simp add: announced_def announce_def emitted_simps split: option.splits)

lemma announced_record: "filter record_broadcast (announced change) = announced change"
  by (simp add: announced_def announce_def emitted_simps record_broadcast_def
      split: option.splits)

lemma announced_throws: "throws change \<Longrightarrow> announced change = []"
  by (auto simp add: throws_def announced_def announce_def split: option.splits)

lemma emitted_milestone:
  "\<exists>xs. emitted (milestone change ws) = emitted ws @ xs \<and> filter record_broadcast xs = []"
  by (simp add: milestone_def emitted_simps record_broadcast_def split: option.splits)

lemma emitted_stats:
  "\<exists>xs. emitted (broadcastStats queries ws) = emitted ws @ xs \<and>
        filter record_broadcast xs = []"
  by (simp add: emitted_simps record_broadcast_def split: sum.splits prod.splits)

lemma accept_emitted:
  "\<exists>xs. emitted (webSocketService (service (accept change l))) =
          emitted (webSocketService (service l)) @ xs \<and>
        filter record_broadcast xs = announced change"
proof (cases "throws change")
  case True
  then show ?thesis by (simp add: accept_def announced_throws)
next
  case False
  obtain xs where
    xs: "emitted (milestone change (announce change (webSocketService (service l)))) =
           emitted (announce change (webSocketService (service l))) @ xs"
      "filter record_broadcast xs = []"
    using emitted_milestone by blast
  show ?thesis
  proof (cases "notification_of change")
    case None
    with False xs show ?thesis
      by (simp add: accept_def suspend_def Let_def emitted_announce announced_record)
  next
    case (Some n)
    with False show ?thesis
      by (simp add: accept_def suspend_def Let_def emitted_announce announced_record)
  qed
qed

lemma accept_notified:
  "notified (service (accept change l)) =
     notified (service l) @ List.map_filter notification_of [change]"
proof (cases "throws change")
  case True
  then show ?thesis by (simp add: accept_def notification_of_def List.map_filter_simps)
next
  case False
  then show ?thesis
    by (cases "notification_of change")
      (simp_all add: accept_def suspend_def Let_def List.map_filter_simps)
qed

lemma delivered_Cons: "delivered (m # ms) = delivered [m] @ delivered ms"
  by (cases m) simp_all

lemma map_filter_append:
  "List.map_filter f (xs @ ys) = List.map_filter f xs @ List.map_filter f ys"
  by (simp add: List.map_filter_def)

lemma step_emitted:
  assumes "step m l = Some l1"
  shows "\<exists>xs. emitted (webSocketService (service l1)) =
               emitted (webSocketService (service l)) @ xs \<and>
             filter record_broadcast xs = concat (map announced (delivered [m]))"
proof (cases m)
  case (Deliver change)
  with assms accept_emitted [of change l] show ?thesis by auto
next
  case (MailSettles i mail)
  with assms emitted_milestone show ?thesis
    by (auto split: if_splits awaiting.splits)
next
  case (QueriesSettle i queries)
  with assms emitted_stats show ?thesis
    by (auto split: if_splits awaiting.splits)
qed

lemma step_notified:
  assumes "step m l = Some l1"
  shows "notified (service l1) =
           notified (service l) @ List.map_filter notification_of (delivered [m])"
proof (cases m)
  case (Deliver change)
  with assms accept_notified [of change l] show ?thesis by auto
next
  case (MailSettles i mail)
  with assms show ?thesis
    by (auto simp add: List.map_filter_simps split: if_splits awaiting.splits)
next
  case (QueriesSettle i queries)
  with assms show ?thesis
    by (auto simp add: List.map_filter_simps split: if_splits awaiting.splits)
qed

lemma run_emitted:
  "run ms l = Some l1 \<Longrightarrow>
   \<exists>xs. emitted (webSocketService (service l1)) =
          emitted (webSocketService (service l)) @ xs \<and>
        filter record_broadcast xs = concat (map announced (delivered ms))"
proof (induction ms arbitrary: l)
  case Nil
  then show ?case by simp
next
  case (Cons m ms)
  then obtain l0 where l0: "step m l = Some l0" "run ms l0 = Some l1"
    by (auto split: option.splits)
  from step_emitted [OF l0(1)] obtain xs where
    xs: "emitted (webSocketService (service l0)) = emitted (webSocketService (service l)) @ xs"
      "filter record_broadcast xs = concat (map announced (delivered [m]))"
    by blast
  from Cons.IH [OF l0(2)] obtain ys where
    ys: "emitted (webSocketService (service l1)) = emitted (webSocketService (service l0)) @ ys"
      "filter record_broadcast ys = concat (map announced (delivered ms))"
    by blast
  have "emitted (webSocketService (service l1)) =
          emitted (webSocketService (service l)) @ (xs @ ys)"
    using xs ys by simp
  moreover have "filter record_broadcast (xs @ ys) =
                   concat (map announced (delivered (m # ms)))"
    using xs ys by (subst delivered_Cons) simp
  ultimately show ?case by blast
qed

lemma run_notified:
  "run ms l = Some l1 \<Longrightarrow>
   notified (service l1) = notified (service l) @ List.map_filter notification_of (delivered ms)"
proof (induction ms arbitrary: l)
  case Nil
  then show ?case by (simp add: List.map_filter_simps)
next
  case (Cons m ms)
  then obtain l0 where l0: "step m l = Some l0" "run ms l0 = Some l1"
    by (auto split: option.splits)
  show ?case
    using step_notified [OF l0(1)] Cons.IH [OF l0(2)]
    by (subst delivered_Cons) (simp add: map_filter_append)
qed

text \<open>
  C3, as the code has it. Whatever the feed delivers and however the awaited mails and
  queries settle in between, the record broadcasts emitted during the run are those of the
  delivered changes, change by change in the order of the feed, and so are the calls made
  on the email service: both happen in the listener call itself, before its first await.
  What a handler does after an await (the \<^verbatim>\<open>order-delivered\<close> broadcast that follows a
  mail, the statistics) is not among them; it is not ordered with the next change.
\<close>

theorem record_broadcasts_in_feed_order:
  assumes "run ms l = Some l1"
  shows "filter record_broadcast (emitted_since (service l) (service l1)) =
           concat (map announced (delivered ms)) \<and>
         notified (service l1) =
           notified (service l) @ List.map_filter notification_of (delivered ms)"
  using run_emitted [OF assms] run_notified [OF assms] by (auto simp add: emitted_since_def)

lemmas loop_eval =
  accept_def throws_def notification_of_def announce_def milestone_def suspend_def idle_def
  sample_insert_def sample_order_def Let_def emitted_simps

theorem record_broadcasts_in_feed_order_witness:
  "run [Deliver (sample_insert ''a''), Deliver (sample_insert ''b''),
        QueriesSettle 0 (Inr (1, [(''pending'', 1)])),
        QueriesSettle 0 (Inr (2, [(''pending'', 2)]))] (idle initial) \<noteq> None \<and>
   map_option (filter record_broadcast \<circ> emitted_since initial \<circ> service)
     (run [Deliver (sample_insert ''a''), Deliver (sample_insert ''b''),
           QueriesSettle 0 (Inr (1, [(''pending'', 1)])),
           QueriesSettle 0 (Inr (2, [(''pending'', 2)]))] (idle initial)) =
     Some [\<lparr>target = Everyone, event = ''order-created'',
            payload = OrderPayload ''order-created'' (sample_order ''a'' ''pending'' None)\<rparr>,
           \<lparr>target = Room ''order-a'', event = ''order-update'',
            payload = OrderPayload ''order-created'' (sample_order ''a'' ''pending'' None)\<rparr>,
           \<lparr>target = Everyone, event = ''order-created'',
            payload = OrderPayload ''order-created'' (sample_order ''b'' ''pending'' None)\<rparr>,
           \<lparr>target = Room ''order-b'', event = ''order-update'',
            payload = OrderPayload ''order-created'' (sample_order ''b'' ''pending'' None)\<rparr>]"
proof -
  let ?ms = "[Deliver (sample_insert ''a''), Deliver (sample_insert ''b''),
        QueriesSettle 0 (Inr (1, [(''pending'', 1)])),
        QueriesSettle 0 (Inr (2, [(''pending'', 2)]))]"
  have "run ?ms (idle initial) \<noteq> None"
    by (simp add: loop_eval)
  then obtain l1 where r: "run ?ms (idle initial) = Some l1"
    by blast
  have a: "announced (sample_insert ''a'') =
      [\<lparr>target = Everyone, event = ''order-created'',
            payload = OrderPayload ''order-created'' (sample_order ''a'' ''pending'' None)\<rparr>,
           \<lparr>target = Room ''order-a'', event = ''order-update'',
            payload = OrderPayload ''order-created'' (sample_order ''a'' ''pending'' None)\<rparr>]"
    and b: "announced (sample_insert ''b'') =
      [\<lparr>target = Everyone, event = ''order-created'',
            payload = OrderPayload ''order-created'' (sample_order ''b'' ''pending'' None)\<rparr>,
           \<lparr>target = Room ''order-b'', event = ''order-update'',
            payload = OrderPayload ''order-created'' (sample_order ''b'' ''pending'' None)\<rparr>]"
    by (simp_all add: announced_def announce_def sample_insert_def sample_order_def
        emitted_simps order_room_def)
  have s: "service (idle initial) = initial"
    by (simp add: idle_def)
  show ?thesis
    using record_broadcasts_in_feed_order [OF r] r
    by (simp add: a b s del: run.simps)
qed

text \<open>
  Two inserts in a row. The second is delivered while the handler of the first is
  suspended on its statistics queries, so two handlers are in flight at once, and the
  statistics of the first are emitted after the broadcast of the second. And an update to
  \<^verbatim>\<open>delivered\<close> followed by an insert: the insert is delivered while the update's handler
  awaits its mail, so the \<^verbatim>\<open>order-delivered\<close> broadcast of the update is emitted after
  the broadcast of the insert.
\<close>

theorem handlers_overlap_counterexample:
  "map_option suspended (run [Deliver (sample_insert ''a'')] (idle initial)) =
     Some [AwaitingQueries] \<and>
   map_option suspended
     (run [Deliver (sample_insert ''a''), Deliver (sample_insert ''b'')] (idle initial)) =
     Some [AwaitingQueries, AwaitingQueries] \<and>
   map_option (emitted \<circ> webSocketService \<circ> service)
     (run [Deliver (sample_insert ''a''), Deliver (sample_insert ''b''),
           QueriesSettle 0 (Inr (1, [(''pending'', 1)])),
           QueriesSettle 0 (Inr (2, [(''pending'', 2)]))] (idle initial)) =
     Some [\<lparr>target = Everyone, event = ''order-created'',
            payload = OrderPayload ''order-created'' (sample_order ''a'' ''pending'' None)\<rparr>,
           \<lparr>target = Room ''order-a'', event = ''order-update'',
            payload = OrderPayload ''order-created'' (sample_order ''a'' ''pending'' None)\<rparr>,
           \<lparr>target = Everyone, event = ''order-created'',
            payload = OrderPayload ''order-created'' (sample_order ''b'' ''pending'' None)\<rparr>,
           \<lparr>target = Room ''order-b'', event = ''order-update'',
            payload = OrderPayload ''order-created'' (sample_order ''b'' ''pending'' None)\<rparr>,
           \<lparr>target = Everyone, event = ''order-stats'', payload = Stats 1 [(''pending'', 1)]\<rparr>,
           \<lparr>target = Everyone, event = ''order-stats'', payload = Stats 2 [(''pending'', 2)]\<rparr>] \<and>
   map_option suspended
     (run [Deliver (sample_update ''a'' ''shipped'' ''delivered'' (Some ''ada@example.org'')),
           Deliver (sample_insert ''b'')] (idle initial)) =
     Some [AwaitingMail (sample_update ''a'' ''shipped'' ''delivered'' (Some ''ada@example.org'')),
           AwaitingQueries] \<and>
   map_option (map event \<circ> emitted \<circ> webSocketService \<circ> service)
     (run [Deliver (sample_update ''a'' ''shipped'' ''delivered'' (Some ''ada@example.org'')),
           Deliver (sample_insert ''b''),
           MailSettles 0 (Inr (Sent ''id'' ''250 OK''))] (idle initial)) =
     Some [''order-updated'', ''order-update'', ''order-created'', ''order-update'',
           ''order-delivered'']"
proof -
  have inserts:
    "map_option suspended (run [Deliver (sample_insert ''a'')] (idle initial)) =
       Some [AwaitingQueries]"
    "map_option suspended
       (run [Deliver (sample_insert ''a''), Deliver (sample_insert ''b'')] (idle initial)) =
       Some [AwaitingQueries, AwaitingQueries]"
    "map_option (emitted \<circ> webSocketService \<circ> service)
       (run [Deliver (sample_insert ''a''), Deliver (sample_insert ''b''),
             QueriesSettle 0 (Inr (1, [(''pending'', 1)])),
             QueriesSettle 0 (Inr (2, [(''pending'', 2)]))] (idle initial)) =
       Some [\<lparr>target = Everyone, event = ''order-created'',
              payload = OrderPayload ''order-created'' (sample_order ''a'' ''pending'' None)\<rparr>,
             \<lparr>target = Room ''order-a'', event = ''order-update'',
              payload = OrderPayload ''order-created'' (sample_order ''a'' ''pending'' None)\<rparr>,
             \<lparr>target = Everyone, event = ''order-created'',
              payload = OrderPayload ''order-created'' (sample_order ''b'' ''pending'' None)\<rparr>,
             \<lparr>target = Room ''order-b'', event = ''order-update'',
              payload = OrderPayload ''order-created'' (sample_order ''b'' ''pending'' None)\<rparr>,
             \<lparr>target = Everyone, event = ''order-stats'', payload = Stats 1 [(''pending'', 1)]\<rparr>,
             \<lparr>target = Everyone, event = ''order-stats'', payload = Stats 2 [(''pending'', 2)]\<rparr>]"
    by (simp_all add: loop_eval initial_def constructor_def order_room_def)
  have update:
    "map_option suspended
       (run [Deliver (sample_update ''a'' ''shipped'' ''delivered'' (Some ''ada@example.org'')),
             Deliver (sample_insert ''b'')] (idle initial)) =
       Some [AwaitingMail (sample_update ''a'' ''shipped'' ''delivered'' (Some ''ada@example.org'')),
             AwaitingQueries]"
    "map_option (map event \<circ> emitted \<circ> webSocketService \<circ> service)
       (run [Deliver (sample_update ''a'' ''shipped'' ''delivered'' (Some ''ada@example.org'')),
             Deliver (sample_insert ''b''),
             MailSettles 0 (Inr (Sent ''id'' ''250 OK''))] (idle initial)) =
       Some [''order-updated'', ''order-update'', ''order-created'', ''order-update'',
             ''order-delivered'']"
    by (simp_all add: loop_eval sample_update_def initial_def constructor_def order_room_def)
  from inserts update show ?thesis
    by (simp only: simp_thms)
qed

end
